theory Spec2Isabelle
  imports Main "HOL-Library.Sublist" "HOL-Library.Char_ord" "HOL-Library.List_Lexorder"
begin

section \<open>Static site index generator: the data model\<close>

text \<open>
  The action of \<^verbatim>\<open>.github/actions/static-site-index-gen/src/main.ts\<close> walks a directory
  tree and writes an \<^verbatim>\<open>index.html\<close> and/or \<^verbatim>\<open>index.json\<close> into every directory it
  visits. Strings are byte strings (\<^typ>\<open>string\<close>); paths are POSIX paths, as on the
  \<^verbatim>\<open>ubuntu-latest\<close> runners the README uses.
\<close>

datatype entry_type = File | Directory

text \<open>
  \<^verbatim>\<open>interface FileEntry { name; type; size?; modified?; path }\<close>. The optional fields are
  options; the field names carry a prefix because both interfaces have a \<^verbatim>\<open>path\<close>.
\<close>

record FileEntry =
  fe_name :: string
  fe_type :: entry_type
  fe_size :: "nat option"
  fe_modified :: "string option"
  fe_path :: string

text \<open>\<^verbatim>\<open>interface DirectoryIndex { path; entries; generated }\<close>\<close>

record DirectoryIndex =
  di_path :: string
  di_entries :: "FileEntry list"
  di_generated :: string

text \<open>
  The file system below the scan root, as \<^verbatim>\<open>fs.readdirSync(dir, {withFileTypes: true})\<close> and
  \<^verbatim>\<open>fs.statSync\<close> show it: a regular file has a name, a size in bytes and a modification
  time (already in the form of \<^verbatim>\<open>toISOString()\<close>); a directory has a name and its listing
  in the order \<^verbatim>\<open>readdirSync\<close> returns it; everything else (symbolic link, socket, fifo,
  device) is a \<open>Special\<close> node, for which both \<^verbatim>\<open>isFile()\<close> and \<^verbatim>\<open>isDirectory()\<close> are
  false. Every directory is taken to be listable, every \<^verbatim>\<open>stat\<close> and every write to
  succeed.
\<close>

datatype fsnode =
    RegularFile string nat string
  | Dir string "fsnode list"
  | Special string

fun dirent_name :: "fsnode \<Rightarrow> string" where
  "dirent_name (RegularFile n _ _) = n"
| "dirent_name (Dir n _) = n"
| "dirent_name (Special n) = n"

fun isDirectory :: "fsnode \<Rightarrow> bool" where
  "isDirectory (Dir _ _) = True"
| "isDirectory _ = False"

fun isFile :: "fsnode \<Rightarrow> bool" where
  "isFile (RegularFile _ _ _) = True"
| "isFile _ = False"

text \<open>
  What the program takes from its runtime and does not define itself: the glob matcher
  \<^verbatim>\<open>minimatch(path, pattern, {dot: true})\<close>, the collation \<^verbatim>\<open>String.prototype.localeCompare\<close>,
  the clock behind \<^verbatim>\<open>new Date().toISOString()\<close> and the date formatting
  \<^verbatim>\<open>new Date(iso).toLocaleDateString('en-US', ...)\<close>. They are parameters of the model.
\<close>

record runtime =
  minimatch :: "string \<Rightarrow> string \<Rightarrow> bool"
  localeCompare :: "string \<Rightarrow> string \<Rightarrow> int"
  now :: string
  toLocaleDateString :: "string \<Rightarrow> string"

text \<open>The parameters \<^verbatim>\<open>walkAndGenerate\<close> passes on unchanged to every recursive call.\<close>

record options =
  ignorePatterns :: "string list"
  outputFormat :: string
  stylesheet :: string
  includeMetadata :: bool
  titleTemplate :: string

text \<open>
  An index file written by \<^verbatim>\<open>fs.writeFileSync\<close>: the HTML text, or the DirectoryIndex
  that \<^verbatim>\<open>JSON.stringify(index, null, 2)\<close> serialises.
\<close>

datatype document = HtmlDocument string | JsonDocument DirectoryIndex

text \<open>
  The state the walk changes: the two counters of \<^verbatim>\<open>stats\<close>, the files written (path
  relative to the scan root, and content), and a log of every DirectoryIndex assembled
  (line 169), in the order of assembly.
\<close>

record walk_state =
  generatedCount :: nat
  directoriesScanned :: nat
  written :: "(string \<times> document) list"
  assembled :: "DirectoryIndex list"

section \<open>Pattern filter\<close>

text \<open>\<^verbatim>\<open>relativePath.replace(/\\/g, '/')\<close>\<close>

definition normalizeSeparators :: "string \<Rightarrow> string" where
  "normalizeSeparators p = map (\<lambda>c. if c = CHR 0x5C then CHR ''/'' else c) p"

text \<open>
  POSIX \<^verbatim>\<open>path.basename\<close>: trailing slashes are dropped, then the part after the last
  slash is returned; \<^verbatim>\<open>path.basename('/')\<close> is the empty string.
\<close>

definition basename :: "string \<Rightarrow> string" where
  "basename p =
     rev (takeWhile (\<lambda>c. c \<noteq> CHR ''/'') (dropWhile (\<lambda>c. c = CHR ''/'') (rev p)))"

text \<open>The loop of \<^verbatim>\<open>shouldIgnore\<close> over the patterns, with its two early returns.\<close>

fun shouldIgnore_loop :: "runtime \<Rightarrow> string \<Rightarrow> string list \<Rightarrow> bool" where
  "shouldIgnore_loop rt normalizedPath [] = False"
| "shouldIgnore_loop rt normalizedPath (pattern # rest) =
     (if minimatch rt normalizedPath pattern then True
      else if minimatch rt (basename normalizedPath) pattern then True
      else shouldIgnore_loop rt normalizedPath rest)"

definition shouldIgnore :: "runtime \<Rightarrow> string \<Rightarrow> string list \<Rightarrow> bool" where
  "shouldIgnore rt relativePath patterns =
     shouldIgnore_loop rt (normalizeSeparators relativePath) patterns"

section \<open>Sorting the entries\<close>

text \<open>
  The comparator of \<^verbatim>\<open>entries.sort\<close> (lines 162 to 167): entries of different type are
  ordered directory first; entries of one type by \<^verbatim>\<open>a.name.localeCompare(b.name)\<close>.
\<close>

definition compareEntries :: "runtime \<Rightarrow> FileEntry \<Rightarrow> FileEntry \<Rightarrow> int" where
  "compareEntries rt a b =
     (if fe_type a \<noteq> fe_type b then (if fe_type a = Directory then - 1 else 1)
      else localeCompare rt (fe_name a) (fe_name b))"

text \<open>
  \<^verbatim>\<open>Array.prototype.sort\<close> is a stable sort (ECMAScript 2019). For a comparator that is a
  consistent total preorder every stable sort returns the same list, so the model is the
  stable insertion sort: \<open>a\<close> stays before \<open>b\<close> unless the comparator is positive.
\<close>

fun insert_sorted :: "('a \<Rightarrow> 'a \<Rightarrow> int) \<Rightarrow> 'a \<Rightarrow> 'a list \<Rightarrow> 'a list" where
  "insert_sorted cmp x [] = [x]"
| "insert_sorted cmp x (y # ys) =
     (if cmp x y \<le> 0 then x # y # ys else y # insert_sorted cmp x ys)"

definition array_sort :: "('a \<Rightarrow> 'a \<Rightarrow> int) \<Rightarrow> 'a list \<Rightarrow> 'a list" where
  "array_sort cmp xs = foldr (insert_sorted cmp) xs []"

section \<open>Renderer\<close>

text \<open>
  \<^verbatim>\<open>str.replace(/c/g, r)\<close> for a single character \<open>c\<close> and a replacement without
  \<^verbatim>\<open>$\<close>: every occurrence of the character becomes the replacement.
\<close>

definition replaceAll :: "char \<Rightarrow> string \<Rightarrow> string \<Rightarrow> string" where
  "replaceAll c r s = concat (map (\<lambda>x. if x = c then r else [x]) s)"

text \<open>\<^verbatim>\<open>escapeHtml\<close>: the four replacements, in the order of the source.\<close>

definition escapeHtml :: "string \<Rightarrow> string" where
  "escapeHtml str =
     replaceAll (CHR 0x22) ''&quot;''
       (replaceAll (CHR ''>'') ''&gt;''
         (replaceAll (CHR ''<'') ''&lt;''
           (replaceAll (CHR ''&'') ''&amp;'' str)))"

text \<open>The decimal digits of a number, as \<^verbatim>\<open>Number.prototype.toString\<close> writes an integer.\<close>

function show_nat :: "nat \<Rightarrow> string" where
  "show_nat n =
     (if n < 10 then [char_of (48 + n)]
      else show_nat (n div 10) @ [char_of (48 + n mod 10)])"
  by pat_completeness auto
termination
  by (relation "measure id") auto

text \<open>
  \<^verbatim>\<open>(bytes / d).toFixed(1)\<close> for a divisor \<open>d\<close> that is a power of two: the quotient is
  then an exact double (for sizes below \<open>2^53\<close>), and \<^verbatim>\<open>toFixed(1)\<close> takes the integer \<open>n\<close>
  with \<open>n / 10\<close> nearest to it, the larger one on a tie.
\<close>

definition toFixed1 :: "nat \<Rightarrow> nat \<Rightarrow> string" where
  "toFixed1 bytes d =
     (let n = (20 * bytes + d) div (2 * d)
      in show_nat (n div 10) @ ''.'' @ show_nat (n mod 10))"

definition formatFileSize :: "nat \<Rightarrow> string" where
  "formatFileSize bytes =
     (if bytes < 1024 then show_nat bytes @ '' B''
      else if bytes < 1024 * 1024 then toFixed1 bytes 1024 @ '' KB''
      else toFixed1 bytes (1024 * 1024) @ '' MB'')"

definition formatDate :: "runtime \<Rightarrow> string \<Rightarrow> string" where
  "formatDate rt isoString = toLocaleDateString rt isoString"

text \<open>
  \<^verbatim>\<open>String.prototype.replace(searchString, replaceValue)\<close> with two strings: the first
  occurrence of the search string is replaced, and in the replacement \<^verbatim>\<open>$$\<close>, \<^verbatim>\<open>$&\<close>,
  \<^verbatim>\<open>$`\<close> and \<^verbatim>\<open>$'\<close> stand for a dollar sign, the match, the text before it and the text
  after it (ECMAScript GetSubstitution; there are no capture groups).
\<close>

fun split_first :: "string \<Rightarrow> string \<Rightarrow> (string \<times> string) option" where
  "split_first pat [] = (if pat = [] then Some ([], []) else None)"
| "split_first pat (c # cs) =
     (if prefix pat (c # cs) then Some ([], drop (length pat) (c # cs))
      else (case split_first pat cs of
              None \<Rightarrow> None
            | Some (preceding, following) \<Rightarrow> Some (c # preceding, following)))"

fun getSubstitution :: "string \<Rightarrow> string \<Rightarrow> string \<Rightarrow> string \<Rightarrow> string" where
  "getSubstitution matched preceding following [] = []"
| "getSubstitution matched preceding following [c] = [c]"
| "getSubstitution matched preceding following (c # d # rest) =
     (if c = CHR ''$'' \<and> d = CHR ''$'' then CHR ''$'' # getSubstitution matched preceding following rest
      else if c = CHR ''$'' \<and> d = CHR ''&'' then matched @ getSubstitution matched preceding following rest
      else if c = CHR ''$'' \<and> d = CHR 0x60 then preceding @ getSubstitution matched preceding following rest
      else if c = CHR ''$'' \<and> d = CHR 0x27 then following @ getSubstitution matched preceding following rest
      else c # getSubstitution matched preceding following (d # rest))"

definition replaceFirst :: "string \<Rightarrow> string \<Rightarrow> string \<Rightarrow> string" where
  "replaceFirst searchString replaceValue str =
     (case split_first searchString str of
        None \<Rightarrow> str
      | Some (preceding, following) \<Rightarrow>
          preceding @ getSubstitution searchString preceding following replaceValue @ following)"

text \<open>\<^verbatim>\<open>Array.prototype.join\<close>\<close>

fun join :: "string \<Rightarrow> string list \<Rightarrow> string" where
  "join sep [] = []"
| "join sep [x] = x"
| "join sep (x # y # ys) = x @ sep @ join sep (y # ys)"

text \<open>
  The two icons are the folder and the page emoji (U+1F4C1, U+1F4C4), here as their
  UTF-8 bytes. No property below depends on them.
\<close>

definition icon_directory :: string where
  "icon_directory = [CHR 0xF0, CHR 0x9F, CHR 0x93, CHR 0x81]"

definition icon_file :: string where
  "icon_file = [CHR 0xF0, CHR 0x9F, CHR 0x93, CHR 0x84]"

text \<open>
  The fixed text of the template literals of \<^verbatim>\<open>generateHtml\<close>, cut at the \<^verbatim>\<open>${...}\<close>
  substitutions: the row template (lines 218 to 223), the parent row (lines 228 to 233),
  the document (lines 236 to 263) and the default style block (lines 267 to 290).
\<close>

definition row_1 :: string where
  \<open>row_1 =
     ''    <tr>\<newline>'' @
     ''      <td>''\<close>

definition row_2 :: string where
  \<open>row_2 =
     ''</td>\<newline>'' @
     ''      <td><a href="''\<close>

definition row_3 :: string where
  \<open>row_3 =
     ''">''\<close>

definition row_4 :: string where
  \<open>row_4 =
     ''</a></td>\<newline>'' @
     ''      <td class="size">''\<close>

definition row_5 :: string where
  \<open>row_5 =
     ''</td>\<newline>'' @
     ''      <td class="date">''\<close>

definition row_6 :: string where
  \<open>row_6 =
     ''</td>\<newline>'' @
     ''    </tr>''\<close>

definition parent_1 :: string where
  \<open>parent_1 =
     ''    <tr>\<newline>'' @
     ''      <td>''\<close>

definition parent_2 :: string where
  \<open>parent_2 =
     ''</td>\<newline>'' @
     ''      <td><a href="../">../</a></td>\<newline>'' @
     ''      <td class="size">-</td>\<newline>'' @
     ''      <td class="date">-</td>\<newline>'' @
     ''    </tr>\<newline>''\<close>

definition doc_1 :: string where
  \<open>doc_1 =
     ''<!DOCTYPE html>\<newline>'' @
     ''<html lang="en">\<newline>'' @
     ''<head>\<newline>'' @
     ''  <meta charset="UTF-8">\<newline>'' @
     ''  <meta name="viewport" content="width=device-width, initial-scale=1.0">\<newline>'' @
     ''  <title>''\<close>

definition doc_2 :: string where
  \<open>doc_2 =
     ''</title>\<newline>'' @
     ''  ''\<close>

definition doc_3 :: string where
  \<open>doc_3 =
     ''\<newline>'' @
     ''</head>\<newline>'' @
     ''<body>\<newline>'' @
     ''  <h1>''\<close>

definition doc_4 :: string where
  \<open>doc_4 =
     ''</h1>\<newline>'' @
     ''  <table>\<newline>'' @
     ''    <thead>\<newline>'' @
     ''      <tr>\<newline>'' @
     ''        <th></th>\<newline>'' @
     ''        <th>Name</th>\<newline>'' @
     ''        <th>Size</th>\<newline>'' @
     ''        <th>Modified</th>\<newline>'' @
     ''      </tr>\<newline>'' @
     ''    </thead>\<newline>'' @
     ''    <tbody>\<newline>''\<close>

definition doc_5 :: string where
  \<open>doc_5 =
     ''\<newline>'' @
     ''    </tbody>\<newline>'' @
     ''  </table>\<newline>'' @
     ''  <footer>\<newline>'' @
     ''    <p>Generated ''\<close>

definition doc_6 :: string where
  \<open>doc_6 =
     ''</p>\<newline>'' @
     ''  </footer>\<newline>'' @
     ''</body>\<newline>'' @
     ''</html>''\<close>

definition link_1 :: string where
  \<open>link_1 = ''<link rel="stylesheet" href="''\<close>

definition link_2 :: string where
  \<open>link_2 = ''">''\<close>

definition getDefaultStyles :: string where
  \<open>getDefaultStyles =
     ''<style>\<newline>'' @
     ''    :root {\<newline>'' @
     ''      --bg: #1a1a2e;\<newline>'' @
     ''      --fg: #eef;\<newline>'' @
     ''      --link: #64b5f6;\<newline>'' @
     ''      --border: #333;\<newline>'' @
     ''    }\<newline>'' @
     ''    body {\<newline>'' @
     ''      font-family: -apple-system, BlinkMacSystemFont, 'Segoe UI', Roboto, monospace;\<newline>'' @
     ''      background: var(--bg);\<newline>'' @
     ''      color: var(--fg);\<newline>'' @
     ''      max-width: 900px;\<newline>'' @
     ''      margin: 2rem auto;\<newline>'' @
     ''      padding: 0 1rem;\<newline>'' @
     ''    }\<newline>'' @
     ''    h1 { border-bottom: 1px solid var(--border); padding-bottom: 0.5rem; }\<newline>'' @
     ''    table { width: 100%; border-collapse: collapse; }\<newline>'' @
     ''    th, td { text-align: left; padding: 0.5rem; border-bottom: 1px solid var(--border); }\<newline>'' @
     ''    th:first-child, td:first-child { width: 2rem; text-align: center; }\<newline>'' @
     ''    .size, .date { text-align: right; color: #888; font-size: 0.9rem; }\<newline>'' @
     ''    a { color: var(--link); text-decoration: none; }\<newline>'' @
     ''    a:hover { text-decoration: underline; }\<newline>'' @
     ''    footer { margin-top: 2rem; color: #666; font-size: 0.8rem; }\<newline>'' @
     ''  </style>''\<close>

text \<open>One table row: the callback of \<^verbatim>\<open>index.entries.map\<close> (lines 206 to 224).\<close>

definition renderRow :: "runtime \<Rightarrow> FileEntry \<Rightarrow> string" where
  "renderRow rt entry =
     (let icon = (if fe_type entry = Directory then icon_directory else icon_file);
          href = (if fe_type entry = Directory then fe_name entry @ ''/'' else fe_name entry);
          sizeCell = (case fe_size entry of Some bytes \<Rightarrow> formatFileSize bytes | None \<Rightarrow> ''-'');
          dateCell = (case fe_modified entry of
                        Some m \<Rightarrow> if m \<noteq> [] then formatDate rt m else ''-''
                      | None \<Rightarrow> ''-'')
      in row_1 @ icon @ row_2 @ escapeHtml href @ row_3 @ escapeHtml (fe_name entry) @
         (if fe_type entry = Directory then ''/'' else []) @
         row_4 @ sizeCell @ row_5 @ dateCell @ row_6)"

text \<open>The parent row of lines 227 to 234: present unless the index path is \<^verbatim>\<open>/\<close>.\<close>

definition parentLink :: "DirectoryIndex \<Rightarrow> string" where
  "parentLink index =
     (if di_path index \<noteq> ''/'' then parent_1 @ icon_directory @ parent_2 else [])"

definition generateHtml :: "runtime \<Rightarrow> DirectoryIndex \<Rightarrow> string \<Rightarrow> string \<Rightarrow> string" where
  "generateHtml rt index stylesheet' titleTemplate' =
     (let title = replaceFirst ''{path}'' (di_path index) titleTemplate';
          stylesheetLink =
            (if stylesheet' \<noteq> [] then link_1 @ escapeHtml stylesheet' @ link_2
             else getDefaultStyles);
          rows = join ''\<newline>'' (map (renderRow rt) (di_entries index))
      in doc_1 @ escapeHtml title @ doc_2 @ stylesheetLink @ doc_3 @ escapeHtml title @
         doc_4 @ parentLink index @ rows @ doc_5 @ formatDate rt (di_generated index) @ doc_6)"

section \<open>Tree walker\<close>

text \<open>
  \<open>rel\<close> stands for \<^verbatim>\<open>path.relative(rootDir, dir)\<close>: the empty string for the scan root
  itself, otherwise the names from the root down to the directory, joined by slashes.
  \<^verbatim>\<open>path.relative(rootDir, path.join(dir, item.name))\<close> of a child is then:
\<close>

definition childRelativePath :: "string \<Rightarrow> string \<Rightarrow> string" where
  "childRelativePath rel name = (if rel = [] then name else rel @ ''/'' @ name)"

text \<open>
  Lines 132 to 142: the entry of a child, with size and modification time when metadata
  is requested and the child is a regular file.
\<close>

definition makeEntry :: "options \<Rightarrow> string \<Rightarrow> fsnode \<Rightarrow> FileEntry" where
  "makeEntry opts itemRelativePath item =
     (let entry = \<lparr>fe_name = dirent_name item,
                    fe_type = (if isDirectory item then Directory else File),
                    fe_size = None, fe_modified = None,
                    fe_path = itemRelativePath\<rparr>
      in if includeMetadata opts \<and> isFile item then
           (case item of
              RegularFile _ bytes mtime \<Rightarrow> entry\<lparr>fe_size := Some bytes, fe_modified := Some mtime\<rparr>
            | _ \<Rightarrow> entry)
         else entry)"

text \<open>
  Lines 175 to 191: the two output branches. A file is recorded under its path relative
  to the scan root.
\<close>

definition writeIndexFiles ::
  "runtime \<Rightarrow> options \<Rightarrow> string \<Rightarrow> DirectoryIndex \<Rightarrow> walk_state \<Rightarrow> walk_state" where
  "writeIndexFiles rt opts rel index st =
     (let st1 =
            (if outputFormat opts = ''html'' \<or> outputFormat opts = ''both'' then
               st\<lparr>written := written st @
                      [(childRelativePath rel ''index.html'',
                        HtmlDocument (generateHtml rt index (stylesheet opts) (titleTemplate opts)))],
                  generatedCount := generatedCount st + 1\<rparr>
             else st)
      in if outputFormat opts = ''json'' \<or> outputFormat opts = ''both'' then
           st1\<lparr>written := written st1 @ [(childRelativePath rel ''index.json'', JsonDocument index)],
               generatedCount := generatedCount st1 + 1\<rparr>
         else st1)"

text \<open>
  \<^verbatim>\<open>walkAndGenerate\<close> for the directory with relative path \<open>rel\<close> and listing \<open>items\<close>, and
  its loop over the items (lines 119 to 159), which collects the entries and recurses
  into every subdirectory it keeps.
\<close>

fun walkAndGenerate ::
  "runtime \<Rightarrow> options \<Rightarrow> string \<Rightarrow> fsnode list \<Rightarrow> walk_state \<Rightarrow> walk_state"
and walkItems ::
  "runtime \<Rightarrow> options \<Rightarrow> string \<Rightarrow> fsnode list \<Rightarrow> FileEntry list \<times> walk_state
     \<Rightarrow> FileEntry list \<times> walk_state"
where
  "walkAndGenerate rt opts rel items st =
     (let relativePath = (if rel = [] then ''/'' else rel) in
      if shouldIgnore rt relativePath (ignorePatterns opts) then st
      else
        (case walkItems rt opts rel items
                ([], st\<lparr>directoriesScanned := directoriesScanned st + 1\<rparr>) of
           (entries, st') \<Rightarrow>
             (let index = \<lparr>di_path = (if relativePath = [] then ''/'' else ''/'' @ relativePath),
                            di_entries = array_sort (compareEntries rt) entries,
                            di_generated = now rt\<rparr>
              in writeIndexFiles rt opts rel index
                   (st'\<lparr>assembled := assembled st' @ [index]\<rparr>))))"
| "walkItems rt opts rel [] acc = acc"
| "walkItems rt opts rel (item # rest) (entries, st) =
     (let itemRelativePath = childRelativePath rel (dirent_name item) in
      if dirent_name item = ''index.html'' \<or> dirent_name item = ''index.json'' then
        walkItems rt opts rel rest (entries, st)
      else if shouldIgnore rt itemRelativePath (ignorePatterns opts) then
        walkItems rt opts rel rest (entries, st)
      else
        walkItems rt opts rel rest
          (entries @ [makeEntry opts itemRelativePath item],
           (case item of
              Dir _ children \<Rightarrow> walkAndGenerate rt opts itemRelativePath children st
            | _ \<Rightarrow> st)))"

section \<open>The action's entry point\<close>

text \<open>\<^verbatim>\<open>a || b\<close> on strings: the empty string is falsy.\<close>

definition orDefault :: "string \<Rightarrow> string \<Rightarrow> string" where
  "orDefault s d = (if s = [] then d else s)"

text \<open>
  \<^verbatim>\<open>String.prototype.trim\<close> and \<^verbatim>\<open>split(/[\n,]/)\<close>. Of the white space of ECMAScript only
  the ASCII characters are modelled (tab, line feed, vertical tab, form feed, carriage
  return, space).
\<close>

definition isWhiteSpace :: "char \<Rightarrow> bool" where
  "isWhiteSpace c = (c \<in> set [CHR 0x09, CHR 0x0A, CHR 0x0B, CHR 0x0C, CHR 0x0D, CHR 0x20])"

definition trim :: "string \<Rightarrow> string" where
  "trim s = rev (dropWhile isWhiteSpace (rev (dropWhile isWhiteSpace s)))"

fun split_chars :: "(char \<Rightarrow> bool) \<Rightarrow> string \<Rightarrow> string list" where
  "split_chars sep [] = [[]]"
| "split_chars sep (c # cs) =
     (if sep c then [] # split_chars sep cs
      else (case split_chars sep cs of
              [] \<Rightarrow> [[c]]
            | w # ws \<Rightarrow> (c # w) # ws))"

definition parseIgnorePatterns :: "string \<Rightarrow> string list" where
  "parseIgnorePatterns input =
     (if input = [] then []
      else filter (\<lambda>p. p \<noteq> [] \<and> \<not> prefix ''#'' p)
             (map trim (split_chars (\<lambda>c. c = CHR 0x0A \<or> c = CHR '','') input)))"

text \<open>
  What \<^verbatim>\<open>run\<close> reads from its surroundings: the action inputs (\<^verbatim>\<open>core.getInput\<close>, the
  empty string for an input that is absent), \<^verbatim>\<open>path.resolve\<close> and \<^verbatim>\<open>path.join\<close>, and the
  file system: what stands at an absolute path, if anything.
\<close>

record action_env =
  getInput :: "string \<Rightarrow> string"
  pathResolve :: "string \<Rightarrow> string"
  pathJoin :: "string \<Rightarrow> string \<Rightarrow> string"
  lookup :: "string \<Rightarrow> fsnode option"

text \<open>
  What \<^verbatim>\<open>run\<close> does: the messages of \<^verbatim>\<open>core.setFailed\<close>, the pairs of \<^verbatim>\<open>core.setOutput\<close>,
  the lines of \<^verbatim>\<open>core.info\<close>, and the effects of the walk.
\<close>

record run_result =
  setFailed :: "string list"
  setOutput :: "(string \<times> string) list"
  info :: "string list"
  effects :: walk_state

text \<open>\<^verbatim>\<open>const stats = { generatedCount: 0, directoriesScanned: 0 }\<close>, nothing written yet.\<close>

definition initial_state :: walk_state where
  "initial_state = \<lparr>generatedCount = 0, directoriesScanned = 0, written = [], assembled = []\<rparr>"

text \<open>Lines 57 to 64: the outputs and the closing message of a walk that returned.\<close>

definition reportSuccess ::
  "action_env \<Rightarrow> string \<Rightarrow> string \<Rightarrow> string list \<Rightarrow> walk_state \<Rightarrow> run_result" where
  "reportSuccess env rootDir outputFormat' log st =
     \<lparr>setFailed = [],
      setOutput =
        [(''generated-count'', show_nat (generatedCount st)),
         (''directories-scanned'', show_nat (directoriesScanned st))] @
        (if outputFormat' = ''json'' \<or> outputFormat' = ''both''
         then [(''manifest-path'', pathJoin env rootDir ''index.json'')] else []),
      info = log @
        [''Generated '' @ show_nat (generatedCount st) @ '' index files across '' @
         show_nat (directoriesScanned st) @ '' directories''],
      effects = st\<rparr>"

text \<open>
  \<^verbatim>\<open>run\<close>. An error thrown inside the \<^verbatim>\<open>try\<close> block ends in the one \<^verbatim>\<open>core.setFailed\<close> of
  the \<^verbatim>\<open>catch\<close>: the explicit one when nothing stands at the root path, and the
  \<^verbatim>\<open>ENOTDIR\<close> of \<^verbatim>\<open>readdirSync\<close> when the root is not a directory (and not ignored).
\<close>

definition run :: "runtime \<Rightarrow> action_env \<Rightarrow> run_result" where
  "run rt env =
     (let rootDir = orDefault (getInput env ''root'') ''.'';
          outputFormat' = orDefault (getInput env ''output-format'') ''both'';
          stylesheet' = getInput env ''stylesheet'';
          ignorePatterns' = parseIgnorePatterns (getInput env ''ignore'');
          includeMetadata' = (getInput env ''include-metadata'' = ''true'');
          titleTemplate' = orDefault (getInput env ''title-template'') ''Index of {path}'';
          opts = \<lparr>ignorePatterns = ignorePatterns', outputFormat = outputFormat',
                   stylesheet = stylesheet', includeMetadata = includeMetadata',
                   titleTemplate = titleTemplate'\<rparr>;
          log = [''Scanning directory: '' @ rootDir,
                 ''Output format: '' @ outputFormat',
                 ''Ignore patterns: '' @ join '', '' ignorePatterns'];
          absoluteRoot = pathResolve env rootDir
      in case lookup env absoluteRoot of
           None \<Rightarrow>
             \<lparr>setFailed = [''Root directory does not exist: '' @ absoluteRoot],
              setOutput = [], info = log, effects = initial_state\<rparr>
         | Some (Dir _ items) \<Rightarrow>
             reportSuccess env rootDir outputFormat' log
               (walkAndGenerate rt opts [] items initial_state)
         | Some _ \<Rightarrow>
             (if shouldIgnore rt ''/'' ignorePatterns' then
                reportSuccess env rootDir outputFormat' log initial_state
              else
                \<lparr>setFailed = [''ENOTDIR: not a directory, scandir '' @ [CHR 0x27] @
                              absoluteRoot @ [CHR 0x27]],
                 setOutput = [], info = log, effects = initial_state\<rparr>))"

section \<open>Notions the properties are stated with\<close>

text \<open>
  The entries the loop of \<^verbatim>\<open>walkAndGenerate\<close> keeps for a listing: a child is skipped
  when it carries a reserved name or the filter ignores its relative path.
\<close>

definition keptItem :: "runtime \<Rightarrow> string list \<Rightarrow> string \<Rightarrow> fsnode \<Rightarrow> bool" where
  "keptItem rt patterns rel item =
     (dirent_name item \<noteq> ''index.html'' \<and> dirent_name item \<noteq> ''index.json'' \<and>
      \<not> shouldIgnore rt (childRelativePath rel (dirent_name item)) patterns)"

definition collectedEntries :: "runtime \<Rightarrow> options \<Rightarrow> string \<Rightarrow> fsnode list \<Rightarrow> FileEntry list" where
  "collectedEntries rt opts rel items =
     map (\<lambda>item. makeEntry opts (childRelativePath rel (dirent_name item)) item)
       (filter (keptItem rt (ignorePatterns opts) rel) items)"

text \<open>
  The number of directories below a listing that can be reached through directories
  that pass \<open>keep\<close> (a test on the name and the relative path of a directory).
\<close>

fun countDirs :: "(string \<Rightarrow> string \<Rightarrow> bool) \<Rightarrow> string \<Rightarrow> fsnode list \<Rightarrow> nat" where
  "countDirs keep rel [] = 0"
| "countDirs keep rel (RegularFile _ _ _ # rest) = countDirs keep rel rest"
| "countDirs keep rel (Special _ # rest) = countDirs keep rel rest"
| "countDirs keep rel (Dir n children # rest) =
     (if keep n (childRelativePath rel n)
      then 1 + countDirs keep (childRelativePath rel n) children else 0)
     + countDirs keep rel rest"

text \<open>
  The non-ignored directories reachable from the root, the root included: a directory
  counts when the filter ignores neither it nor any directory between the root and it.
\<close>

definition nonIgnoredDirs :: "runtime \<Rightarrow> string list \<Rightarrow> fsnode list \<Rightarrow> nat" where
  "nonIgnoredDirs rt patterns items =
     1 + countDirs (\<lambda>n p. \<not> shouldIgnore rt p patterns) [] items"

text \<open>
  What the walker itself asks of a directory before it descends: no reserved name, and
  not ignored by the filter.
\<close>

definition walkerKeeps :: "runtime \<Rightarrow> string list \<Rightarrow> string \<Rightarrow> string \<Rightarrow> bool" where
  "walkerKeeps rt patterns =
     (\<lambda>n p. n \<noteq> ''index.html'' \<and> n \<noteq> ''index.json'' \<and> \<not> shouldIgnore rt p patterns)"

text \<open>
  The count of directories when a directory named \<^verbatim>\<open>index.html\<close> or \<^verbatim>\<open>index.json\<close> is
  left out as well, with everything below it.
\<close>

definition visitedDirs :: "runtime \<Rightarrow> string list \<Rightarrow> fsnode list \<Rightarrow> nat" where
  "visitedDirs rt patterns items = 1 + countDirs (walkerKeeps rt patterns) [] items"

text \<open>
  The DirectoryIndex the walk assembles for the directory \<open>rel\<close> with listing \<open>items\<close>
  (lines 161 to 173), once the entries are known.
\<close>

definition indexOf :: "runtime \<Rightarrow> options \<Rightarrow> string \<Rightarrow> fsnode list \<Rightarrow> DirectoryIndex" where
  "indexOf rt opts rel items =
     \<lparr>di_path = ''/'' @ (if rel = [] then ''/'' else rel),
      di_entries = array_sort (compareEntries rt) (collectedEntries rt opts rel items),
      di_generated = now rt\<rparr>"

text \<open>
  \<open>tally st n st'\<close>: from \<open>st\<close> to \<open>st'\<close> the walk has scanned \<open>n\<close> directories and
  assembled \<open>n\<close> indexes.
\<close>

definition tally :: "walk_state \<Rightarrow> nat \<Rightarrow> walk_state \<Rightarrow> bool" where
  "tally st n st' =
     (directoriesScanned st' = directoriesScanned st + n \<and>
      length (assembled st') = length (assembled st) + n)"

text \<open>
  A comparator in the sense of \<^verbatim>\<open>Array.prototype.sort\<close> that is total and transitive:
  the least a sort needs to put a list in order.
\<close>

definition totalPreorder :: "('a \<Rightarrow> 'a \<Rightarrow> int) \<Rightarrow> bool" where
  "totalPreorder cmp =
     ((\<forall>a b. cmp a b \<le> 0 \<or> cmp b a \<le> 0) \<and>
      (\<forall>a b c. cmp a b \<le> 0 \<longrightarrow> cmp b c \<le> 0 \<longrightarrow> cmp a c \<le> 0))"

text \<open>
  The order of the entries of an index, for an order \<open>le\<close> on names: no file before a
  directory, and entries of one type in the order of their names.
\<close>

definition entriesOrdered :: "(string \<Rightarrow> string \<Rightarrow> bool) \<Rightarrow> FileEntry list \<Rightarrow> bool" where
  "entriesOrdered le es =
     sorted_wrt (\<lambda>a b. (fe_type a = Directory \<or> fe_type b = File) \<and>
                        (fe_type a = fe_type b \<longrightarrow> le (fe_name a) (fe_name b))) es"

text \<open>
  The raw occurrences of the four characters in a document: every \<^verbatim>\<open><\<close>, \<^verbatim>\<open>>\<close> and double
  quote, and every \<^verbatim>\<open>&\<close> that does not begin one of the four entities \<^verbatim>\<open>escapeHtml\<close>
  writes. They are the characters a browser reads as markup.
\<close>

definition startsEntity :: "string \<Rightarrow> bool" where
  "startsEntity cs =
     (prefix ''amp;'' cs \<or> prefix ''lt;'' cs \<or> prefix ''gt;'' cs \<or> prefix ''quot;'' cs)"

fun rawSpecials :: "string \<Rightarrow> string" where
  "rawSpecials [] = []"
| "rawSpecials (c # cs) =
     (if c = CHR ''&'' then (if startsEntity cs then rawSpecials cs else c # rawSpecials cs)
      else if c = CHR ''<'' \<or> c = CHR ''>'' \<or> c = CHR 0x22 then c # rawSpecials cs
      else rawSpecials cs)"


text \<open>What \<^verbatim>\<open>escapeHtml\<close> makes of one character.\<close>

definition escapeChar :: "char \<Rightarrow> string" where
  "escapeChar c =
     (if c = CHR ''&'' then ''&amp;'' else if c = CHR ''<'' then ''&lt;''
      else if c = CHR ''>'' then ''&gt;'' else if c = CHR 0x22 then ''&quot;'' else [c])"


section \<open>A concrete runtime for the examples\<close>

text \<open>
  The closed examples below need values for the parameters. The matcher is string
  equality, which is what a glob pattern without metacharacters asks for. The collation
  compares letters without regard to case first and, between names that differ in case
  only, puts the lower-case letter first: the order of the ICU collation behind
  \<^verbatim>\<open>localeCompare\<close> on ASCII letters (\<^verbatim>\<open>'a'.localeCompare('B')\<close> is negative). The clock is
  fixed, and a date is shown by its first ten characters.
\<close>

definition toLowerAscii :: "char \<Rightarrow> char" where
  "toLowerAscii c =
     (if CHR ''A'' \<le> c \<and> c \<le> CHR ''Z'' then char_of (of_char c + (32::nat)) else c)"

definition sample_localeCompare :: "string \<Rightarrow> string \<Rightarrow> int" where
  "sample_localeCompare a b =
     (if map toLowerAscii a < map toLowerAscii b then - 1
      else if map toLowerAscii b < map toLowerAscii a then 1
      else if a = b then 0
      else if b < a then - 1 else 1)"

definition sample_runtime :: runtime where
  "sample_runtime =
     \<lparr>minimatch = (\<lambda>p pattern. p = pattern),
      localeCompare = sample_localeCompare,
      now = ''2024-01-20T15:00:00.000Z'',
      toLocaleDateString = (\<lambda>iso. take 10 iso)\<rparr>"

definition sample_options :: "string list \<Rightarrow> string \<Rightarrow> options" where
  "sample_options patterns fmt =
     \<lparr>ignorePatterns = patterns, outputFormat = fmt, stylesheet = ''style.css'',
      includeMetadata = True, titleTemplate = ''Index of {path}''\<rparr>"

text \<open>
  A small site: two files, a subdirectory with two files, a \<^verbatim>\<open>node_modules\<close>
  directory and an index file left by an earlier run.
\<close>

definition sample_site :: "fsnode list" where
  "sample_site =
     [RegularFile ''file1.txt'' 7 ''2024-01-15T10:30:00.000Z'',
      RegularFile ''index.html'' 512 ''2024-01-10T08:00:00.000Z'',
      Dir ''node_modules'' [RegularFile ''pkg.js'' 0 ''2024-01-11T09:00:00.000Z'', Dir ''lib'' []],
      Dir ''subdir'' [RegularFile ''Zeta.md'' 2048 ''2024-01-12T10:00:00.000Z'',
                      RegularFile ''alpha.md'' 11 ''2024-01-13T11:00:00.000Z''],
      RegularFile ''file2.json'' 2 ''2024-01-15T10:31:00.000Z'']"

text \<open>
  Action inputs given as a list of pairs, the empty string for an input that is not
  listed (as the mock of \<^verbatim>\<open>core.getInput\<close> in the test file answers), and a file system
  that holds \<open>root\<close> at the one path \<open>at\<close>.
\<close>

definition sample_env :: "(string \<times> string) list \<Rightarrow> string \<Rightarrow> fsnode option \<Rightarrow> action_env" where
  "sample_env inputs at root =
     \<lparr>getInput = (\<lambda>name. case map_of inputs name of Some v \<Rightarrow> v | None \<Rightarrow> []),
      pathResolve = (\<lambda>p. p),
      pathJoin = (\<lambda>a b. a @ ''/'' @ b),
      lookup = (\<lambda>p. if p = at then root else None)\<rparr>"

section \<open>Facts about the walk\<close>

declare walkAndGenerate.simps [simp del]

lemma walkItems_entries:
  "fst (walkItems rt opts rel items (es, st)) = es @ collectedEntries rt opts rel items"
  by (induction items arbitrary: es st) (auto simp: collectedEntries_def keptItem_def Let_def)

lemma walkAndGenerate_unfold:
  "walkAndGenerate rt opts rel items st =
     (if shouldIgnore rt (if rel = [] then ''/'' else rel) (ignorePatterns opts) then st
      else writeIndexFiles rt opts rel (indexOf rt opts rel items)
             ((snd (walkItems rt opts rel items
                     ([], st\<lparr>directoriesScanned := directoriesScanned st + 1\<rparr>)))
              \<lparr>assembled :=
                 assembled (snd (walkItems rt opts rel items
                     ([], st\<lparr>directoriesScanned := directoriesScanned st + 1\<rparr>)))
                 @ [indexOf rt opts rel items]\<rparr>))"
  by (simp add: walkAndGenerate.simps [of rt opts rel items st] Let_def split_beta
        walkItems_entries indexOf_def)

text \<open>
  A relation between states that is reflexive and transitive and holds across the two
  updates of a visit (the counter at the start, the index and its files at the end)
  holds across the whole walk.
\<close>

lemma walk_relation_aux:
  assumes r_refl: "\<And>st. R st st"
    and r_trans: "\<And>a b c. R a b \<Longrightarrow> R b c \<Longrightarrow> R a c"
    and enter: "\<And>st. R st (st\<lparr>directoriesScanned := directoriesScanned st + 1\<rparr>)"
    and leave: "\<And>rel items st.
           R st (writeIndexFiles rt opts rel (indexOf rt opts rel items)
                   (st\<lparr>assembled := assembled st @ [indexOf rt opts rel items]\<rparr>))"
  shows "rt' = rt \<and> opts' = opts \<longrightarrow> R st (walkAndGenerate rt' opts' rel items st)"
    and "rt' = rt \<and> opts' = opts \<longrightarrow> R (snd acc) (snd (walkItems rt' opts' rel items acc))"
proof (induction rt' opts' rel items st and rt' opts' rel items acc
       rule: walkAndGenerate_walkItems.induct)
  case (1 rt' opts' rel items st)
  show ?case
  proof (intro impI, elim conjE)
    assume eq: "rt' = rt" "opts' = opts"
    show "R st (walkAndGenerate rt' opts' rel items st)"
    proof (cases "shouldIgnore rt (if rel = [] then ''/'' else rel) (ignorePatterns opts)")
      case True
      then show ?thesis by (simp add: walkAndGenerate_unfold r_refl eq)
    next
      case False
      let ?s1 = "st\<lparr>directoriesScanned := directoriesScanned st + 1\<rparr>"
      let ?s2 = "snd (walkItems rt opts rel items ([], ?s1))"
      have a: "R st ?s1" by (rule enter)
      have b: "R ?s1 ?s2"
        using "1.IH" [OF HOL.refl] False eq by simp
      have c: "R ?s2 (writeIndexFiles rt opts rel (indexOf rt opts rel items)
                   (?s2\<lparr>assembled := assembled ?s2 @ [indexOf rt opts rel items]\<rparr>))"
        by (rule leave)
      have "walkAndGenerate rt opts rel items st =
              writeIndexFiles rt opts rel (indexOf rt opts rel items)
                   (?s2\<lparr>assembled := assembled ?s2 @ [indexOf rt opts rel items]\<rparr>)"
        using False by (subst walkAndGenerate_unfold) simp
      then show ?thesis
        using r_trans [OF a r_trans [OF b c]] eq by simp
    qed
  qed
next
  case (2 rt' opts' rel acc)
  show ?case by (simp add: r_refl)
next
  case (3 rt' opts' rel item rest entries st)
  show ?case
  proof (intro impI, elim conjE)
    assume eq: "rt' = rt" "opts' = opts"
    let ?x = "childRelativePath rel (dirent_name item)"
    show "R (snd (entries, st)) (snd (walkItems rt' opts' rel (item # rest) (entries, st)))"
    proof (cases "dirent_name item = ''index.html'' \<or> dirent_name item = ''index.json''")
      case True
      then show ?thesis using "3.IH"(1) [OF HOL.refl True] eq by simp
    next
      case nres: False
      show ?thesis
      proof (cases "shouldIgnore rt ?x (ignorePatterns opts)")
        case True
        then show ?thesis using "3.IH"(2) [OF HOL.refl] nres eq by simp
      next
        case False
        let ?s1 = "case item of Dir xa children \<Rightarrow> walkAndGenerate rt opts ?x children st
                   | _ \<Rightarrow> st"
        have a: "R st ?s1"
        proof (cases item)
          case (Dir n cs)
          then show ?thesis using "3.IH"(3) [OF HOL.refl nres _ Dir] False eq by simp
        qed (simp_all add: r_refl)
        have b: "R ?s1 (snd (walkItems rt opts rel rest
                               (entries @ [makeEntry opts ?x item], ?s1)))"
          using "3.IH"(4) [OF HOL.refl nres] False eq by (simp cong: fsnode.case_cong)
        show ?thesis
          using r_trans [OF a b] nres False eq by (simp add: Let_def cong: fsnode.case_cong)
      qed
    qed
  qed
qed

lemma walk_relation:
  assumes "\<And>st. R st st"
    and "\<And>a b c. R a b \<Longrightarrow> R b c \<Longrightarrow> R a c"
    and "\<And>st. R st (st\<lparr>directoriesScanned := directoriesScanned st + 1\<rparr>)"
    and "\<And>rel items st.
           R st (writeIndexFiles rt opts rel (indexOf rt opts rel items)
                   (st\<lparr>assembled := assembled st @ [indexOf rt opts rel items]\<rparr>))"
  shows "R st (walkAndGenerate rt opts rel items st)"
  using walk_relation_aux(1) [of R rt opts rt opts st rel items] assms by blast

lemma writeIndexFiles_scanned [simp]:
  "directoriesScanned (writeIndexFiles rt opts rel index st) = directoriesScanned st"
  by (simp add: writeIndexFiles_def Let_def)

lemma writeIndexFiles_assembled [simp]:
  "assembled (writeIndexFiles rt opts rel index st) = assembled st"
  by (simp add: writeIndexFiles_def Let_def)

lemma tally_0 [simp]: "tally st 0 st"
  by (simp add: tally_def)

lemma tally_trans: "tally a m b \<Longrightarrow> tally b n c \<Longrightarrow> tally a (m + n) c"
  by (simp add: tally_def)

text \<open>
  The number of directories the walk scans, and of indexes it assembles, by induction
  along the recursion of the walk. The root not being ignored is needed for a directory
  whose relative path is empty.
\<close>

lemma scanned_count_aux:
  shows "\<not> shouldIgnore rt ''/'' (ignorePatterns opts) \<longrightarrow>
         tally st
           (if shouldIgnore rt (if rel = [] then ''/'' else rel) (ignorePatterns opts) then 0
            else 1 + countDirs (walkerKeeps rt (ignorePatterns opts)) rel items)
           (walkAndGenerate rt opts rel items st)"
    and "\<not> shouldIgnore rt ''/'' (ignorePatterns opts) \<longrightarrow>
         tally (snd acc) (countDirs (walkerKeeps rt (ignorePatterns opts)) rel items)
           (snd (walkItems rt opts rel items acc))"
proof (induction rt opts rel items st and rt opts rel items acc
       rule: walkAndGenerate_walkItems.induct)
  case (1 rt opts rel items st)
  show ?case
  proof
    assume root: "\<not> shouldIgnore rt ''/'' (ignorePatterns opts)"
    show "tally st
           (if shouldIgnore rt (if rel = [] then ''/'' else rel) (ignorePatterns opts) then 0
            else 1 + countDirs (walkerKeeps rt (ignorePatterns opts)) rel items)
           (walkAndGenerate rt opts rel items st)"
    proof (cases "shouldIgnore rt (if rel = [] then ''/'' else rel) (ignorePatterns opts)")
      case True
      then show ?thesis by (simp add: walkAndGenerate_unfold)
    next
      case False
      then show ?thesis
        using "1.IH" [OF HOL.refl False] root
        by (simp add: walkAndGenerate_unfold tally_def)
    qed
  qed
next
  case (2 rt opts rel acc)
  show ?case by simp
next
  case (3 rt opts rel item rest entries st)
  show ?case
  proof
    assume root: "\<not> shouldIgnore rt ''/'' (ignorePatterns opts)"
    let ?x = "childRelativePath rel (dirent_name item)"
    let ?k = "walkerKeeps rt (ignorePatterns opts)"
    show "tally (snd (entries, st)) (countDirs ?k rel (item # rest))
            (snd (walkItems rt opts rel (item # rest) (entries, st)))"
    proof (cases "dirent_name item = ''index.html'' \<or> dirent_name item = ''index.json''")
      case True
      then show ?thesis
        using "3.IH"(1) [OF HOL.refl True] root by (cases item) (auto simp: walkerKeeps_def)
    next
      case nres: False
      show ?thesis
      proof (cases "shouldIgnore rt ?x (ignorePatterns opts)")
        case True
        then show ?thesis
          using "3.IH"(2) [OF HOL.refl nres True] nres root
          by (cases item) (auto simp: walkerKeeps_def)
      next
        case False
        show ?thesis
        proof (cases item)
          case (Dir n cs)
          have ni: "\<not> shouldIgnore rt (if ?x = [] then ''/'' else ?x) (ignorePatterns opts)"
            using False root by simp
          have a: "tally st (1 + countDirs ?k ?x cs) (walkAndGenerate rt opts ?x cs st)"
            using "3.IH"(3) [OF HOL.refl nres False Dir] root ni by simp
          have b: "tally (walkAndGenerate rt opts ?x cs st) (countDirs ?k rel rest)
                     (snd (walkItems rt opts rel rest
                            (entries @ [makeEntry opts ?x item],
                             walkAndGenerate rt opts ?x cs st)))"
            using "3.IH"(4) [OF HOL.refl nres False] root Dir by simp
          show ?thesis
            using tally_trans [OF a b] nres False Dir by (simp add: Let_def walkerKeeps_def)
        next
          case (RegularFile n b m)
          then show ?thesis
            using "3.IH"(4) [OF HOL.refl nres False] nres False root by (simp add: Let_def)
        next
          case (Special n)
          then show ?thesis
            using "3.IH"(4) [OF HOL.refl nres False] nres False root by (simp add: Let_def)
        qed
      qed
    qed
  qed
qed

lemma visited_count:
  "tally st (if shouldIgnore rt ''/'' (ignorePatterns opts) then 0
             else visitedDirs rt (ignorePatterns opts) items)
     (walkAndGenerate rt opts [] items st)"
proof (cases "shouldIgnore rt ''/'' (ignorePatterns opts)")
  case True
  then show ?thesis by (simp add: walkAndGenerate_unfold)
next
  case False
  then show ?thesis
    using scanned_count_aux(1) [of rt opts st "[]" items] by (simp add: visitedDirs_def)
qed



lemma unrecognized_format_writes_nothing:
  assumes "outputFormat opts \<noteq> ''html''" "outputFormat opts \<noteq> ''json''"
    "outputFormat opts \<noteq> ''both''"
  shows "written (walkAndGenerate rt opts rel items st) = written st \<and>
         generatedCount (walkAndGenerate rt opts rel items st) = generatedCount st"
  by (rule walk_relation
        [where R = "\<lambda>a b. written b = written a \<and> generatedCount b = generatedCount a"])
     (simp_all add: writeIndexFiles_def Let_def assms)

lemma assembled_invariant:
  assumes "\<And>rel items. P (indexOf rt opts rel items)"
    and "list_all P (assembled st)"
  shows "list_all P (assembled (walkAndGenerate rt opts rel items st))"
proof -
  have "list_all P (assembled st) \<longrightarrow> list_all P (assembled (walkAndGenerate rt opts rel items st))"
    by (rule walk_relation
        [where R = "\<lambda>a b. list_all P (assembled a) \<longrightarrow> list_all P (assembled b)"])
      (simp_all add: assms(1))
  with assms(2) show ?thesis by simp
qed

section \<open>The claims\<close>

subsection \<open>C1: the path of a DirectoryIndex\<close>

text \<open>
  The root's index is the last one assembled. Its path is \<^verbatim>\<open>//\<close>: \<^verbatim>\<open>relativePath\<close> is
  \<^verbatim>\<open>path.relative(rootDir, dir) || '/'\<close>, hence \<^verbatim>\<open>/\<close> and never the empty string for the
  root, and the test \<^verbatim>\<open>relativePath === ''\<close> of line 170 never holds. Every other directory
  gets its relative path with a leading slash.
\<close>

lemma root_index_is_last:
  assumes "\<not> shouldIgnore rt ''/'' (ignorePatterns opts)"
  shows "last (assembled (walkAndGenerate rt opts [] items st)) = indexOf rt opts [] items"
  using assms by (simp add: walkAndGenerate_unfold)

lemma root_index_path:
  "di_path (indexOf rt opts [] items) = ''//''"
  by (simp add: indexOf_def)

lemma subdirectory_index_path:
  "rel \<noteq> [] \<Longrightarrow> di_path (indexOf rt opts rel items) = ''/'' @ rel"
  by (simp add: indexOf_def)

text \<open>
  C1 (the code departs from the claim). For the scan root the claim asks for the path
  \<^verbatim>\<open>/\<close>; on a root that holds one subdirectory \<^verbatim>\<open>sub\<close> the walk assembles the index of
  \<^verbatim>\<open>sub\<close> with path \<^verbatim>\<open>/sub\<close>, as claimed, and the index of the root with path \<^verbatim>\<open>//\<close>.
\<close>

theorem C1_root_index_path:
  "map di_path (assembled (walkAndGenerate sample_runtime (sample_options [] ''json'') []
      [Dir ''sub'' []] initial_state)) = [''/sub'', ''//'']"
  by code_simp

subsection \<open>C2: the parent row\<close>

text \<open>
  \<^verbatim>\<open>generateHtml\<close> always contains \<^verbatim>\<open>parentLink\<close>, which is the parent row unless the index
  path is \<^verbatim>\<open>/\<close>; the root's index has the path \<^verbatim>\<open>//\<close>, so its page has the row too.
\<close>

lemma generateHtml_parentLink:
  "sublist (parentLink index) (generateHtml rt index sheet template)"
proof -
  have "\<exists>ps ss. generateHtml rt index sheet template = ps @ parentLink index @ ss"
    unfolding generateHtml_def Let_def
    by (metis append.assoc)
  then show ?thesis by (simp add: sublist_def)
qed

lemma parentLink_root:
  "parentLink (indexOf rt opts [] items) = parent_1 @ icon_directory @ parent_2"
  by (simp add: parentLink_def indexOf_def)

lemma root_html_written:
  assumes "\<not> shouldIgnore rt ''/'' (ignorePatterns opts)" "outputFormat opts = ''html''"
  shows "written (walkAndGenerate rt opts [] [] initial_state) =
           [(''index.html'',
             HtmlDocument (generateHtml rt (indexOf rt opts [] []) (stylesheet opts)
                             (titleTemplate opts)))]"
  using assms
  by (simp add: walkAndGenerate_unfold writeIndexFiles_def initial_state_def Let_def
        childRelativePath_def)

lemma parent_row_links_up:
  \<open>sublist ''<a href="../">../</a>'' (parent_1 @ icon_directory @ parent_2)\<close>
proof -
  have \<open>parent_1 @ icon_directory @ parent_2 =
        (parent_1 @ icon_directory @ ''</td>\<newline>      <td>'') @ ''<a href="../">../</a>'' @
        ''</td>\<newline>      <td class="size">-</td>\<newline>      <td class="date">-</td>\<newline>    </tr>\<newline>''\<close>
    by (simp add: parent_2_def)
  then show ?thesis
    by (metis sublist_appendI)
qed

text \<open>
  C2 (the code departs from the claim). The claim says that the page generated for the
  scan root has no parent-directory row. For an empty root directory and the output
  format \<^verbatim>\<open>html\<close> the one file written is \<^verbatim>\<open>index.html\<close>, and it contains the parent row
  with its link to \<^verbatim>\<open>../\<close>.
\<close>

theorem C2_root_html_has_parent_row:
  \<open>\<exists>html. written (walkAndGenerate sample_runtime (sample_options [] ''html'') [] []
                     initial_state) = [(''index.html'', HtmlDocument html)] \<and>
          sublist (parent_1 @ icon_directory @ parent_2) html \<and>
          sublist ''<a href="../">../</a>'' html\<close>
proof -
  let ?html = "generateHtml sample_runtime (indexOf sample_runtime (sample_options [] ''html'') [] [])
                 (stylesheet (sample_options [] ''html'')) (titleTemplate (sample_options [] ''html''))"
  have h: "\<not> shouldIgnore sample_runtime ''/'' (ignorePatterns (sample_options [] ''html''))"
    by code_simp
  have f: "outputFormat (sample_options [] ''html'') = ''html''"
    by (simp add: sample_options_def)
  have w: "written (walkAndGenerate sample_runtime (sample_options [] ''html'') [] []
                      initial_state) = [(''index.html'', HtmlDocument ?html)]"
    by (rule root_html_written [OF h f])
  have row: "sublist (parent_1 @ icon_directory @ parent_2) ?html"
    using generateHtml_parentLink
            [of "indexOf sample_runtime (sample_options [] ''html'') [] []"]
    by (simp add: parentLink_root)
  have link: \<open>sublist ''<a href="../">../</a>'' ?html\<close>
    using parent_row_links_up row by (rule sublist_order.order_trans)
  show ?thesis
    using w row link by blast
qed

subsection \<open>C3: the default of include-metadata\<close>

text \<open>
  C3 (the code departs from the claim). The README gives \<^verbatim>\<open>include-metadata\<close> the default
  \<^verbatim>\<open>true\<close>, and \<^verbatim>\<open>run\<close> gives the inputs \<^verbatim>\<open>root\<close>, \<^verbatim>\<open>output-format\<close> and \<^verbatim>\<open>title-template\<close>
  their defaults with \<^verbatim>\<open>||\<close>; but \<^verbatim>\<open>includeMetadata\<close> is \<^verbatim>\<open>getInput(...) === 'true'\<close>, which is
  false for the empty string. With the input absent, the regular file \<^verbatim>\<open>test.txt\<close> of 11
  bytes gets an entry without size and without modification time.
\<close>

theorem C3_absent_metadata_input:
  "map (\<lambda>e. (fe_name e, fe_type e, fe_size e, fe_modified e))
     (concat (map di_entries (assembled (effects
        (run sample_runtime
           (sample_env [(''root'', ''/site''), (''output-format'', ''json'')] ''/site''
              (Some (Dir ''site'' [RegularFile ''test.txt'' 11 ''2024-01-15T10:30:00.000Z'']))))))))
   = [(''test.txt'', File, None, None)]"
  by code_simp

text \<open>With the input set to \<^verbatim>\<open>true\<close> the same entry carries both.\<close>

lemma metadata_when_input_is_true:
  "map (\<lambda>e. (fe_name e, fe_type e, fe_size e, fe_modified e))
     (concat (map di_entries (assembled (effects
        (run sample_runtime
           (sample_env [(''root'', ''/site''), (''output-format'', ''json''),
                        (''include-metadata'', ''true'')] ''/site''
              (Some (Dir ''site'' [RegularFile ''test.txt'' 11 ''2024-01-15T10:30:00.000Z'']))))))))
   = [(''test.txt'', File, Some 11, Some ''2024-01-15T10:30:00.000Z'')]"
  by code_simp

text \<open>
  Whether an entry carries metadata is decided by \<open>includeMetadata\<close> alone: a regular
  file gets its size and modification time when it is set, and no entry gets either when
  it is not.
\<close>

lemma metadata_attached_when_requested:
  "includeMetadata opts \<Longrightarrow>
     makeEntry opts p (RegularFile n bytes mtime) =
       \<lparr>fe_name = n, fe_type = File, fe_size = Some bytes, fe_modified = Some mtime,
        fe_path = p\<rparr>"
  by (simp add: makeEntry_def)

lemma no_metadata_when_not_requested:
  "\<not> includeMetadata opts \<Longrightarrow>
     fe_size (makeEntry opts p item) = None \<and> fe_modified (makeEntry opts p item) = None"
  by (simp add: makeEntry_def)

subsection \<open>C4: user-controlled text is escaped\<close>

text \<open>
  The four replacements of \<^verbatim>\<open>escapeHtml\<close>, one after the other, amount to one pass that
  replaces each character on its own; the result has no raw character.
\<close>

lemma replaceAll_Nil [simp]: "replaceAll c r [] = []"
  by (simp add: replaceAll_def)

lemma replaceAll_Cons [simp]:
  "replaceAll c r (x # xs) = (if x = c then r else [x]) @ replaceAll c r xs"
  by (simp add: replaceAll_def)

lemma replaceAll_append [simp]:
  "replaceAll c r (xs @ ys) = replaceAll c r xs @ replaceAll c r ys"
  by (simp add: replaceAll_def)

lemma escapeHtml_Nil [simp]: "escapeHtml [] = []"
  by (simp add: escapeHtml_def)

lemma escapeHtml_Cons: "escapeHtml (c # s) = escapeChar c @ escapeHtml s"
  by (simp add: escapeHtml_def escapeChar_def)

lemma escapeHtml_one_pass: "escapeHtml s = concat (map escapeChar s)"
  by (induction s) (simp_all add: escapeHtml_Cons)

lemma rawSpecials_escapeChar: "rawSpecials (escapeChar c @ b) = rawSpecials b"
  by (simp add: escapeChar_def startsEntity_def)

lemma rawSpecials_escapeHtml [simp]: "rawSpecials (escapeHtml s @ b) = rawSpecials b"
  by (induction s) (simp_all add: escapeHtml_Cons rawSpecials_escapeChar)

lemma rawSpecials_escapeHtml_alone [simp]: "rawSpecials (escapeHtml s) = []"
  using rawSpecials_escapeHtml [of s "[]"] by simp

text \<open>
  \<open>rawSpecials\<close> splits at a piece without \<^verbatim>\<open>&\<close>, and before a piece that starts with
  \<^verbatim>\<open><\<close>, which no entity contains.
\<close>

lemma rawSpecials_plain:
  "CHR ''&'' \<notin> set a \<Longrightarrow> rawSpecials (a @ b) = rawSpecials a @ rawSpecials b"
  by (induction a) auto

lemma prefix_before_other:
  assumes "x \<notin> set e"
  shows "prefix e (d @ x # b) \<longleftrightarrow> prefix e d"
proof
  assume "prefix e (d @ x # b)"
  then consider "prefix e d" | us where "e = d @ us" "prefix us (x # b)"
    by (auto simp: prefix_append)
  then show "prefix e d"
  proof cases
    case 1
    then show ?thesis .
  next
    case 2
    with assms show ?thesis by (cases us) auto
  qed
next
  assume "prefix e d"
  then show "prefix e (d @ x # b)" by (simp add: prefix_prefix)
qed

lemma startsEntity_before_tag: "startsEntity (d @ CHR ''<'' # b) = startsEntity d"
  by (simp add: startsEntity_def prefix_before_other)

lemma rawSpecials_before_tag:
  "rawSpecials (d @ CHR ''<'' # b) = rawSpecials d @ rawSpecials (CHR ''<'' # b)"
  by (induction d) (simp_all add: startsEntity_before_tag)

lemma rawSpecials_chunk [simp]:
  "rawSpecials (row_1 @ b) = rawSpecials row_1 @ rawSpecials b"
  "rawSpecials (row_2 @ b) = rawSpecials row_2 @ rawSpecials b"
  "rawSpecials (row_3 @ b) = rawSpecials row_3 @ rawSpecials b"
  "rawSpecials (row_4 @ b) = rawSpecials row_4 @ rawSpecials b"
  "rawSpecials (row_5 @ b) = rawSpecials row_5 @ rawSpecials b"
  "rawSpecials (row_6 @ b) = rawSpecials row_6 @ rawSpecials b"
  "rawSpecials (parent_1 @ b) = rawSpecials parent_1 @ rawSpecials b"
  "rawSpecials (parent_2 @ b) = rawSpecials parent_2 @ rawSpecials b"
  "rawSpecials (doc_1 @ b) = rawSpecials doc_1 @ rawSpecials b"
  "rawSpecials (doc_2 @ b) = rawSpecials doc_2 @ rawSpecials b"
  "rawSpecials (doc_3 @ b) = rawSpecials doc_3 @ rawSpecials b"
  "rawSpecials (doc_4 @ b) = rawSpecials doc_4 @ rawSpecials b"
  "rawSpecials (doc_5 @ b) = rawSpecials doc_5 @ rawSpecials b"
  "rawSpecials (doc_6 @ b) = rawSpecials doc_6 @ rawSpecials b"
  "rawSpecials (link_1 @ b) = rawSpecials link_1 @ rawSpecials b"
  "rawSpecials (link_2 @ b) = rawSpecials link_2 @ rawSpecials b"
  "rawSpecials (getDefaultStyles @ b) = rawSpecials getDefaultStyles @ rawSpecials b"
  "rawSpecials (icon_directory @ b) = rawSpecials icon_directory @ rawSpecials b"
  "rawSpecials (icon_file @ b) = rawSpecials icon_file @ rawSpecials b"
  by (rule rawSpecials_plain, simp add: row_1_def row_2_def row_3_def row_4_def row_5_def row_6_def parent_1_def parent_2_def doc_1_def doc_2_def doc_3_def doc_4_def doc_5_def doc_6_def link_1_def link_2_def getDefaultStyles_def icon_directory_def icon_file_def)+

lemma rawSpecials_before_chunk [simp]:
  "rawSpecials (d @ row_2 @ b) = rawSpecials d @ rawSpecials (row_2 @ b)"
  "rawSpecials (d @ row_4 @ b) = rawSpecials d @ rawSpecials (row_4 @ b)"
  "rawSpecials (d @ row_5 @ b) = rawSpecials d @ rawSpecials (row_5 @ b)"
  "rawSpecials (d @ row_6 @ b) = rawSpecials d @ rawSpecials (row_6 @ b)"
  "rawSpecials (d @ doc_6 @ b) = rawSpecials d @ rawSpecials (doc_6 @ b)"
  "rawSpecials (d @ doc_6) = rawSpecials d @ rawSpecials doc_6"
  unfolding row_2_def row_4_def row_5_def row_6_def doc_6_def
  by (simp_all add: rawSpecials_before_tag)








subsection \<open>C5: how many indexes, how many files\<close>




subsection \<open>C6: the order of the entries\<close>

text \<open>The insertion sort keeps the elements and, for a total preorder, puts them in order.\<close>

lemma set_insert_sorted: "set (insert_sorted cmp x ys) = insert x (set ys)"
  by (induction ys) auto


lemma sorted_insert_sorted:
  assumes "totalPreorder cmp"
  shows "sorted_wrt (\<lambda>a b. cmp a b \<le> 0) ys \<Longrightarrow>
         sorted_wrt (\<lambda>a b. cmp a b \<le> 0) (insert_sorted cmp x ys)"
proof (induction ys)
  case Nil
  then show ?case by simp
next
  case (Cons y ys)
  have total: "cmp a b \<le> 0 \<or> cmp b a \<le> 0" for a b
    using assms by (simp add: totalPreorder_def)
  have trans: "cmp a b \<le> 0 \<Longrightarrow> cmp b c \<le> 0 \<Longrightarrow> cmp a c \<le> 0" for a b c
    using assms unfolding totalPreorder_def by blast
  show ?case
  proof (cases "cmp x y \<le> 0")
    case True
    then have "\<forall>z\<in>set ys. cmp x z \<le> 0"
      using Cons.prems trans by auto
    with True Cons.prems show ?thesis by simp
  next
    case False
    then have "cmp y x \<le> 0" using total [of x y] by simp
    with False Cons show ?thesis
      by (auto simp: set_insert_sorted)
  qed
qed

lemma sorted_array_sort:
  assumes "totalPreorder cmp"
  shows "sorted_wrt (\<lambda>a b. cmp a b \<le> 0) (array_sort cmp xs)"
proof (induction xs)
  case Nil
  show ?case by (simp add: array_sort_def)
next
  case (Cons x xs)
  then show ?case
    using sorted_insert_sorted [OF assms, of "array_sort cmp xs" x]
    by (simp add: array_sort_def)
qed

lemma compareEntries_le:
  "compareEntries rt a b \<le> 0 \<longleftrightarrow>
     (fe_type a = Directory \<and> fe_type b = File) \<or>
     (fe_type a = fe_type b \<and> localeCompare rt (fe_name a) (fe_name b) \<le> 0)"
  by (cases "fe_type a"; cases "fe_type b") (simp_all add: compareEntries_def)

lemma compareEntries_totalPreorder:
  assumes "totalPreorder (localeCompare rt)"
  shows "totalPreorder (compareEntries rt)"
proof -
  have total: "localeCompare rt a b \<le> 0 \<or> localeCompare rt b a \<le> 0" for a b
    using assms by (simp add: totalPreorder_def)
  have trans: "localeCompare rt a b \<le> 0 \<Longrightarrow> localeCompare rt b c \<le> 0 \<Longrightarrow>
               localeCompare rt a c \<le> 0" for a b c
    using assms unfolding totalPreorder_def by blast
  have 1: "compareEntries rt a b \<le> 0 \<or> compareEntries rt b a \<le> 0" for a b
    using total [of "fe_name a" "fe_name b"]
    by (cases "fe_type a"; cases "fe_type b") (auto simp: compareEntries_le)
  have 2: "compareEntries rt a c \<le> 0"
    if "compareEntries rt a b \<le> 0" "compareEntries rt b c \<le> 0" for a b c
    using that trans [of "fe_name a" "fe_name b" "fe_name c"]
    by (cases "fe_type a"; cases "fe_type b"; cases "fe_type c") (auto simp: compareEntries_le)
  show ?thesis
    unfolding totalPreorder_def using 1 2 by blast
qed

lemma entries_sorted_by_comparator:
  assumes "totalPreorder (localeCompare rt)"
  shows "entriesOrdered (\<lambda>x y. localeCompare rt x y \<le> 0) (array_sort (compareEntries rt) es)"
proof -
  have "sorted_wrt (\<lambda>a b. compareEntries rt a b \<le> 0) (array_sort (compareEntries rt) es)"
    by (rule sorted_array_sort [OF compareEntries_totalPreorder [OF assms]])
  then show ?thesis
    unfolding entriesOrdered_def
  proof (rule sorted_wrt_mono_rel [rotated])
    fix a b
    assume "compareEntries rt a b \<le> 0"
    then show "(fe_type a = Directory \<or> fe_type b = File) \<and>
               (fe_type a = fe_type b \<longrightarrow> localeCompare rt (fe_name a) (fe_name b) \<le> 0)"
      by (cases "fe_type a"; cases "fe_type b") (auto simp: compareEntries_le)
  qed
qed

text \<open>The collation of the examples is a total preorder.\<close>

lemma sample_localeCompare_le:
  "sample_localeCompare a b \<le> 0 \<longleftrightarrow>
     map toLowerAscii a < map toLowerAscii b \<or>
     (map toLowerAscii a = map toLowerAscii b \<and> b \<le> a)"
  by (auto simp: sample_localeCompare_def)

lemma sample_localeCompare_totalPreorder: "totalPreorder sample_localeCompare"
  unfolding totalPreorder_def sample_localeCompare_le by (auto simp: not_less)

text \<open>
  C6 as stated fails: the names are compared with \<^verbatim>\<open>localeCompare\<close>, not by their
  characters. For two files \<^verbatim>\<open>B\<close> and \<^verbatim>\<open>a\<close> the index lists \<^verbatim>\<open>a\<close> before \<^verbatim>\<open>B\<close>, and in the
  case-sensitive lexicographic order \<^verbatim>\<open>B\<close> comes first.
\<close>

theorem C6_counterexample:
  "\<not> list_all (\<lambda>index. entriesOrdered (\<lambda>x y. x \<le> y) (di_entries index))
       (assembled (walkAndGenerate sample_runtime (sample_options [] ''json'') []
          [RegularFile ''B'' 1 ''2024-01-15T10:30:00.000Z'',
           RegularFile ''a'' 1 ''2024-01-15T10:30:00.000Z''] initial_state))"
  by code_simp

text \<open>
  C6, amended. In every DirectoryIndex produced, all directory-typed entries precede
  all file-typed entries, and within each of the two groups the entries are in ascending
  order of name under the comparison \<^verbatim>\<open>localeCompare\<close> of the runtime (a total preorder).
\<close>

theorem C6_entries_sorted:
  assumes "totalPreorder (localeCompare rt)"
  shows "list_all (\<lambda>index. entriesOrdered (\<lambda>x y. localeCompare rt x y \<le> 0) (di_entries index))
           (assembled (walkAndGenerate rt opts [] items initial_state))"
  by (rule assembled_invariant)
     (simp_all add: indexOf_def entries_sorted_by_comparator [OF assms] initial_state_def)

theorem C6_entries_sorted_witness:
  "totalPreorder (localeCompare sample_runtime) \<and>
   list_all (\<lambda>index. entriesOrdered (\<lambda>x y. localeCompare sample_runtime x y \<le> 0)
                      (di_entries index))
     (assembled (walkAndGenerate sample_runtime (sample_options [''node_modules''] ''json'') []
                   sample_site initial_state)) \<and>
   map (\<lambda>index. map fe_name (di_entries index))
     (assembled (walkAndGenerate sample_runtime (sample_options [''node_modules''] ''json'') []
                   sample_site initial_state))
     = [[''alpha.md'', ''Zeta.md''], [''subdir'', ''file1.txt'', ''file2.json'']]"
proof -
  have h: "totalPreorder (localeCompare sample_runtime)"
    by (simp add: sample_runtime_def sample_localeCompare_totalPreorder)
  have e: "map (\<lambda>index. map fe_name (di_entries index))
     (assembled (walkAndGenerate sample_runtime (sample_options [''node_modules''] ''json'') []
                   sample_site initial_state))
     = [[''alpha.md'', ''Zeta.md''], [''subdir'', ''file1.txt'', ''file2.json'']]"
    by code_simp
  from C6_entries_sorted [OF h, of "sample_options [''node_modules''] ''json''" sample_site] h e
  show ?thesis by simp
qed

subsection \<open>C7: what the entries never contain\<close>

lemma makeEntry_name [simp]: "fe_name (makeEntry opts p item) = dirent_name item"
  by (cases item) (simp_all add: makeEntry_def Let_def)

lemma makeEntry_path [simp]: "fe_path (makeEntry opts p item) = p"
  by (cases item) (simp_all add: makeEntry_def Let_def)




subsection \<open>C8: a root that does not exist\<close>

text \<open>
  C8. If nothing stands at the configured root path, the run writes no index file,
  does not traverse (no directory is scanned, no index assembled), sets no output, and
  reports exactly one failure, whose message contains \<^verbatim>\<open>does not exist\<close>.
\<close>

theorem C8_missing_root:
  assumes "lookup env (pathResolve env (orDefault (getInput env ''root'') ''.'')) = None"
  shows "setFailed (run rt env) =
           [''Root directory does not exist: '' @
            pathResolve env (orDefault (getInput env ''root'') ''.'')] \<and>
         list_all (sublist ''does not exist'') (setFailed (run rt env)) \<and>
         length (setFailed (run rt env)) = 1 \<and>
         setOutput (run rt env) = [] \<and>
         written (effects (run rt env)) = [] \<and>
         assembled (effects (run rt env)) = [] \<and>
         directoriesScanned (effects (run rt env)) = 0 \<and>
         generatedCount (effects (run rt env)) = 0"
proof -
  have s: "sublist ''does not exist'' (''Root directory does not exist: '' @ p)" for p
  proof -
    have "''Root directory does not exist: '' @ p = ''Root directory '' @ ''does not exist'' @ ('': '' @ p)"
      by simp
    then show ?thesis by (metis sublist_appendI)
  qed
  show ?thesis
    using assms s by (simp add: run_def Let_def initial_state_def)
qed

theorem C8_missing_root_witness:
  "lookup (sample_env [(''root'', ''/nonexistent/path'')] ''/site'' (Some (Dir ''site'' sample_site)))
     (pathResolve (sample_env [(''root'', ''/nonexistent/path'')] ''/site'' (Some (Dir ''site'' sample_site)))
        (orDefault (getInput (sample_env [(''root'', ''/nonexistent/path'')] ''/site''
                                (Some (Dir ''site'' sample_site))) ''root'') ''.'')) = None \<and>
   setFailed (run sample_runtime
       (sample_env [(''root'', ''/nonexistent/path'')] ''/site'' (Some (Dir ''site'' sample_site))))
     = [''Root directory does not exist: /nonexistent/path''] \<and>
   written (effects (run sample_runtime
       (sample_env [(''root'', ''/nonexistent/path'')] ''/site'' (Some (Dir ''site'' sample_site)))))
     = [] \<and>
   directoriesScanned (effects (run sample_runtime
       (sample_env [(''root'', ''/nonexistent/path'')] ''/site'' (Some (Dir ''site'' sample_site)))))
     = 0"
proof -
  let ?env = "sample_env [(''root'', ''/nonexistent/path'')] ''/site'' (Some (Dir ''site'' sample_site))"
  have h: "lookup ?env (pathResolve ?env (orDefault (getInput ?env ''root'') ''.'')) = None"
    by (simp add: sample_env_def orDefault_def)
  have p: "pathResolve ?env (orDefault (getInput ?env ''root'') ''.'') = ''/nonexistent/path''"
    by (simp add: sample_env_def orDefault_def)
  from C8_missing_root [OF h, of sample_runtime] h p
  show ?thesis by simp
qed

subsection \<open>C9: an ignored root\<close>

text \<open>
  C9. If the Pattern Filter reports the root directory itself as ignored, the walk
  returns immediately: the state is the one it was called with, so no index file is
  written anywhere and the directories-scanned counter stays zero.
\<close>

theorem C9_ignored_root_returns_immediately:
  assumes "shouldIgnore rt ''/'' (ignorePatterns opts)"
  shows "walkAndGenerate rt opts [] items st = st \<and>
         written (walkAndGenerate rt opts [] items initial_state) = [] \<and>
         generatedCount (walkAndGenerate rt opts [] items initial_state) = 0 \<and>
         directoriesScanned (walkAndGenerate rt opts [] items initial_state) = 0"
  using assms by (simp add: walkAndGenerate_unfold initial_state_def)

theorem C9_ignored_root_witness:
  "shouldIgnore sample_runtime ''/'' (ignorePatterns (sample_options [''/''] ''both'')) \<and>
   walkAndGenerate sample_runtime (sample_options [''/''] ''both'') [] sample_site initial_state
     = initial_state \<and>
   written (walkAndGenerate sample_runtime (sample_options [''/''] ''both'') [] sample_site
              initial_state) = [] \<and>
   generatedCount (walkAndGenerate sample_runtime (sample_options [''/''] ''both'') []
              sample_site initial_state) = 0 \<and>
   directoriesScanned (walkAndGenerate sample_runtime (sample_options [''/''] ''both'') []
              sample_site initial_state) = 0"
proof -
  have h: "shouldIgnore sample_runtime ''/'' (ignorePatterns (sample_options [''/''] ''both''))"
    by (simp add: shouldIgnore_def normalizeSeparators_def sample_runtime_def sample_options_def)
  from C9_ignored_root_returns_immediately [OF h, of sample_site initial_state] h
  show ?thesis by (simp add: initial_state_def)
qed

subsection \<open>C10: an output format that is not recognised\<close>

text \<open>
  C10 as stated fails for the same reason as C5: with the format \<^verbatim>\<open>xml\<close> and an empty
  pattern list, a root that holds a directory \<^verbatim>\<open>index.json\<close> with a directory below it
  has three directories that are not ignored, and one of them is scanned.
\<close>

theorem C10_counterexample:
  "outputFormat (sample_options [] ''xml'') \<noteq> ''html'' \<and>
   outputFormat (sample_options [] ''xml'') \<noteq> ''json'' \<and>
   outputFormat (sample_options [] ''xml'') \<noteq> ''both'' \<and>
   directoriesScanned (walkAndGenerate sample_runtime (sample_options [] ''xml'') []
             [Dir ''index.json'' [Dir ''deep'' []]] initial_state) = 1 \<and>
   nonIgnoredDirs sample_runtime (ignorePatterns (sample_options [] ''xml''))
         [Dir ''index.json'' [Dir ''deep'' []]] = 3"
  by code_simp

text \<open>
  C10, amended. For every output format other than \<^verbatim>\<open>html\<close>, \<^verbatim>\<open>json\<close> and \<^verbatim>\<open>both\<close> the
  walk writes no file and \<^verbatim>\<open>generatedCount\<close> stays zero, yet \<^verbatim>\<open>directoriesScanned\<close>
  counts every directory reachable from the root through directories that are neither
  ignored by the filter nor named \<^verbatim>\<open>index.html\<close> or \<^verbatim>\<open>index.json\<close> (none when the root
  itself is ignored).
\<close>

theorem C10_unrecognized_format:
  assumes "outputFormat opts \<noteq> ''html''" "outputFormat opts \<noteq> ''json''"
    "outputFormat opts \<noteq> ''both''"
  shows "written (walkAndGenerate rt opts [] items initial_state) = [] \<and>
         generatedCount (walkAndGenerate rt opts [] items initial_state) = 0 \<and>
         directoriesScanned (walkAndGenerate rt opts [] items initial_state)
           = (if shouldIgnore rt ''/'' (ignorePatterns opts) then 0
              else visitedDirs rt (ignorePatterns opts) items)"
  using unrecognized_format_writes_nothing [OF assms, of rt "[]" items initial_state]
    visited_count [of initial_state rt opts items]
  by (simp add: initial_state_def tally_def)

theorem C10_unrecognized_format_witness:
  "outputFormat (sample_options [''node_modules''] ''xml'') \<noteq> ''html'' \<and>
   outputFormat (sample_options [''node_modules''] ''xml'') \<noteq> ''json'' \<and>
   outputFormat (sample_options [''node_modules''] ''xml'') \<noteq> ''both'' \<and>
   written (walkAndGenerate sample_runtime (sample_options [''node_modules''] ''xml'') []
              sample_site initial_state) = [] \<and>
   generatedCount (walkAndGenerate sample_runtime (sample_options [''node_modules''] ''xml'') []
              sample_site initial_state) = 0 \<and>
   directoriesScanned (walkAndGenerate sample_runtime (sample_options [''node_modules''] ''xml'') []
              sample_site initial_state) = 2"
proof -
  have f: "outputFormat (sample_options [''node_modules''] ''xml'') \<noteq> ''html''"
    "outputFormat (sample_options [''node_modules''] ''xml'') \<noteq> ''json''"
    "outputFormat (sample_options [''node_modules''] ''xml'') \<noteq> ''both''"
    by (simp_all add: sample_options_def)
  have h: "\<not> shouldIgnore sample_runtime ''/''
              (ignorePatterns (sample_options [''node_modules''] ''xml''))"
    by code_simp
  have v: "visitedDirs sample_runtime (ignorePatterns (sample_options [''node_modules''] ''xml''))
             sample_site = 2"
    by code_simp
  from C10_unrecognized_format [OF f, of sample_runtime sample_site] f h v
  show ?thesis by simp
qed

end
